theory Spec2Isabelle
  imports Main "HOL-Library.Word"
begin

unbundle bit_operations_syntax

section \<open>Python values used by the eSewa signature code\<close>

text \<open>
  The two source files, \<^verbatim>\<open>Esewa/views.py\<close> (the Django view \<^verbatim>\<open>paymentHandler\<close>) and
  \<^verbatim>\<open>Esewa/secret.py\<close> (a stand-alone script), build a message with an f-string, encode it,
  compute an HMAC-SHA256 digest and base64-encode it.  A Python \<^verbatim>\<open>str\<close> is a sequence of
  Unicode code points, \<^verbatim>\<open>bytes\<close> a sequence of octets, \<^verbatim>\<open>int\<close> is unbounded and a
  \<^verbatim>\<open>UUID\<close> object holds a 128-bit integer.
\<close>

type_synonym byte = "8 word"
type_synonym word32 = "32 word"
type_synonym pystr = "nat list"
type_synonym pybytes = "byte list"
type_synonym uuid = "128 word"

datatype py_error = UnicodeEncodeError | UnicodeDecodeError

text \<open>A string literal of the source, as the list of its code points.\<close>

definition ascii :: "string \<Rightarrow> pystr" where
  "ascii s = map of_char s"

subsection \<open>\<^verbatim>\<open>str(int)\<close>\<close>

fun digits :: "nat \<Rightarrow> pystr" where
  "digits n = (if n < 10 then [48 + n] else digits (n div 10) @ [48 + n mod 10])"

declare digits.simps [simp del]

definition str_int :: "int \<Rightarrow> pystr" where
  "str_int i = (if i < 0 then 45 # digits (nat (- i)) else digits (nat i))"

subsection \<open>\<^verbatim>\<open>uuid.uuid4()\<close> and \<^verbatim>\<open>str(UUID)\<close>\<close>

text \<open>
  \<^verbatim>\<open>uuid4()\<close> is \<^verbatim>\<open>UUID(bytes=os.urandom(16), version=4)\<close>.  Its only input is the sixteen
  random octets, read big-endian as a 128-bit integer; the constructor then overwrites the
  variant and version fields:
  \<^verbatim>\<open>int &= ~(0xc000 << 48); int |= 0x8000 << 48; int &= ~(0xf000 << 64); int |= version << 76\<close>.
\<close>

definition uuid4 :: "uuid \<Rightarrow> uuid" where
  "uuid4 r =
     (((r AND NOT (push_bit 48 0xc000)) OR push_bit 48 0x8000)
        AND NOT (push_bit 64 0xf000)) OR push_bit 76 4"

definition hexdigit :: "nat \<Rightarrow> nat" where
  "hexdigit n = (if n < 10 then 48 + n else 87 + n)"

text \<open>\<^verbatim>\<open>'%032x' % self.int\<close>: the \<open>n\<close> low nibbles, most significant first.\<close>

primrec hex_digits :: "nat \<Rightarrow> uuid \<Rightarrow> pystr" where
  "hex_digits 0 w = []"
| "hex_digits (Suc n) w = hex_digits n (drop_bit 4 w) @ [hexdigit (unat (w AND 0xF))]"

definition uuid_hex :: "uuid \<Rightarrow> pystr" where
  "uuid_hex w = hex_digits 32 w"

text \<open>
  \<^verbatim>\<open>UUID.__str__\<close>:
  \<^verbatim>\<open>'%s-%s-%s-%s-%s' % (hex[:8], hex[8:12], hex[12:16], hex[16:20], hex[20:])\<close>.
\<close>

definition uuid_str :: "uuid \<Rightarrow> pystr" where
  "uuid_str w =
     (let hex = uuid_hex w in
        take 8 hex @ [45] @ take 4 (drop 8 hex) @ [45] @ take 4 (drop 12 hex) @ [45]
          @ take 4 (drop 16 hex) @ [45] @ drop 20 hex)"

subsection \<open>f-strings\<close>

text \<open>
  An f-string is a sequence of literal parts and replacement fields; a replacement field
  \<^verbatim>\<open>{x}\<close> without conversion or format specification inserts \<^verbatim>\<open>format(x, '')\<close>, which is
  \<^verbatim>\<open>str(x)\<close> for the three types that occur here.
\<close>

datatype pyval = PyInt int | PyStr pystr | PyUUID uuid

fun py_str :: "pyval \<Rightarrow> pystr" where
  "py_str (PyInt i) = str_int i"
| "py_str (PyStr s) = s"
| "py_str (PyUUID u) = uuid_str u"

datatype fpart = Lit string | Field pyval

fun fpart_str :: "fpart \<Rightarrow> pystr" where
  "fpart_str (Lit s) = ascii s"
| "fpart_str (Field v) = py_str v"

definition fstring :: "fpart list \<Rightarrow> pystr" where
  "fstring ps = concat (map fpart_str ps)"

subsection \<open>\<^verbatim>\<open>str.encode()\<close> and \<^verbatim>\<open>bytes.decode('utf-8')\<close>\<close>

text \<open>
  \<^verbatim>\<open>str.encode()\<close> encodes as UTF-8 with strict error handling.  Every code point of a Python
  string is below \<open>0x110000\<close>; the surrogates \<open>U+D800\<close> to \<open>U+DFFF\<close> can occur in a string
  but have no UTF-8 encoding, and \<^verbatim>\<open>encode\<close> raises \<^verbatim>\<open>UnicodeEncodeError\<close> on them.
\<close>

definition scalar_value :: "nat \<Rightarrow> bool" where
  "scalar_value c = (c < 0xD800 \<or> (0xE000 \<le> c \<and> c < 0x110000))"

definition utf8_cp :: "nat \<Rightarrow> nat list" where
  "utf8_cp c =
     (if c < 0x80 then [c]
      else if c < 0x800 then [0xC0 + c div 64, 0x80 + c mod 64]
      else if c < 0x10000 then [0xE0 + c div 4096, 0x80 + c div 64 mod 64, 0x80 + c mod 64]
      else [0xF0 + c div 262144, 0x80 + c div 4096 mod 64, 0x80 + c div 64 mod 64,
            0x80 + c mod 64])"

definition utf8_bytes :: "pystr \<Rightarrow> pybytes" where
  "utf8_bytes s = map of_nat (concat (map utf8_cp s))"

definition encode :: "pystr \<Rightarrow> py_error + pybytes" where
  "encode s = (if list_all scalar_value s then Inr (utf8_bytes s) else Inl UnicodeEncodeError)"

text \<open>
  \<^verbatim>\<open>bytes.decode('utf-8')\<close>, strict: shortest-form sequences of scalar values only, anything
  else raises \<^verbatim>\<open>UnicodeDecodeError\<close>.  \<open>decode_nat\<close> works on the octets as numbers.
\<close>

definition cont :: "nat \<Rightarrow> bool" where
  "cont b = (0x80 \<le> b \<and> b < 0xC0)"

definition cons_cp :: "nat \<Rightarrow> py_error + pystr \<Rightarrow> py_error + pystr" where
  "cons_cp c r = (case r of Inl e \<Rightarrow> Inl e | Inr s \<Rightarrow> Inr (c # s))"

fun decode_nat :: "nat list \<Rightarrow> py_error + pystr" where
  "decode_nat [] = Inr []"
| "decode_nat (b0 # bs) =
     (if b0 < 0x80 then cons_cp b0 (decode_nat bs)
      else if 0xC2 \<le> b0 \<and> b0 < 0xE0 then
        (case bs of
           b1 # r \<Rightarrow>
             if cont b1 then cons_cp ((b0 - 0xC0) * 64 + (b1 - 0x80)) (decode_nat r)
             else Inl UnicodeDecodeError
         | _ \<Rightarrow> Inl UnicodeDecodeError)
      else if 0xE0 \<le> b0 \<and> b0 < 0xF0 then
        (case bs of
           b1 # b2 # r \<Rightarrow>
             if cont b1 \<and> cont b2 \<and> (b0 = 0xE0 \<longrightarrow> 0xA0 \<le> b1) \<and> (b0 = 0xED \<longrightarrow> b1 < 0xA0)
             then cons_cp ((b0 - 0xE0) * 4096 + (b1 - 0x80) * 64 + (b2 - 0x80)) (decode_nat r)
             else Inl UnicodeDecodeError
         | _ \<Rightarrow> Inl UnicodeDecodeError)
      else if 0xF0 \<le> b0 \<and> b0 < 0xF5 then
        (case bs of
           b1 # b2 # b3 # r \<Rightarrow>
             if cont b1 \<and> cont b2 \<and> cont b3 \<and> (b0 = 0xF0 \<longrightarrow> 0x90 \<le> b1)
                \<and> (b0 = 0xF4 \<longrightarrow> b1 < 0x90)
             then cons_cp ((b0 - 0xF0) * 262144 + (b1 - 0x80) * 4096 + (b2 - 0x80) * 64
                           + (b3 - 0x80)) (decode_nat r)
             else Inl UnicodeDecodeError
         | _ \<Rightarrow> Inl UnicodeDecodeError)
      else Inl UnicodeDecodeError)"

definition decode :: "pybytes \<Rightarrow> py_error + pystr" where
  "decode bs = decode_nat (map unat bs)"

section \<open>The library functions\<close>

subsection \<open>\<^verbatim>\<open>hashlib.sha256\<close>\<close>

text \<open>SHA-256 as FIPS 180-4 defines it: 32-bit words, big-endian, 64-octet blocks.\<close>

definition rotr :: "nat \<Rightarrow> word32 \<Rightarrow> word32" where
  "rotr n x = drop_bit n x OR push_bit (32 - n) x"

definition Ch :: "word32 \<Rightarrow> word32 \<Rightarrow> word32 \<Rightarrow> word32" where
  "Ch x y z = (x AND y) XOR (NOT x AND z)"

definition Maj :: "word32 \<Rightarrow> word32 \<Rightarrow> word32 \<Rightarrow> word32" where
  "Maj x y z = (x AND y) XOR (x AND z) XOR (y AND z)"

definition Sigma0 :: "word32 \<Rightarrow> word32" where
  "Sigma0 x = rotr 2 x XOR rotr 13 x XOR rotr 22 x"

definition Sigma1 :: "word32 \<Rightarrow> word32" where
  "Sigma1 x = rotr 6 x XOR rotr 11 x XOR rotr 25 x"

definition sigma0 :: "word32 \<Rightarrow> word32" where
  "sigma0 x = rotr 7 x XOR rotr 18 x XOR drop_bit 3 x"

definition sigma1 :: "word32 \<Rightarrow> word32" where
  "sigma1 x = rotr 17 x XOR rotr 19 x XOR drop_bit 10 x"

text \<open>
  The round constants (the first 32 bits of the fractional parts of the cube roots of the
  first 64 primes) and the initial hash value (the same of the square roots of the first 8
  primes), in decimal.
\<close>

definition K256 :: "word32 list" where
  "K256 = [
    1116352408, 1899447441, 3049323471, 3921009573, 961987163, 1508970993, 2453635748, 2870763221,
    3624381080, 310598401, 607225278, 1426881987, 1925078388, 2162078206, 2614888103, 3248222580,
    3835390401, 4022224774, 264347078, 604807628, 770255983, 1249150122, 1555081692, 1996064986,
    2554220882, 2821834349, 2952996808, 3210313671, 3336571891, 3584528711, 113926993, 338241895,
    666307205, 773529912, 1294757372, 1396182291, 1695183700, 1986661051, 2177026350, 2456956037,
    2730485921, 2820302411, 3259730800, 3345764771, 3516065817, 3600352804, 4094571909, 275423344,
    430227734, 506948616, 659060556, 883997877, 958139571, 1322822218, 1537002063, 1747873779,
    1955562222, 2024104815, 2227730452, 2361852424, 2428436474, 2756734187, 3204031479, 3329325298]"

definition H256 :: "word32 list" where
  "H256 = [1779033703, 3144134277, 1013904242, 2773480762,
           1359893119, 2600822924, 528734635, 1541459225]"

definition be32 :: "byte \<Rightarrow> byte \<Rightarrow> byte \<Rightarrow> byte \<Rightarrow> word32" where
  "be32 a b c d =
     push_bit 24 (ucast a) OR push_bit 16 (ucast b) OR push_bit 8 (ucast c) OR ucast d"

fun words_of :: "pybytes \<Rightarrow> word32 list" where
  "words_of (a # b # c # d # r) = be32 a b c d # words_of r"
| "words_of _ = []"

definition bytes_of_word :: "word32 \<Rightarrow> pybytes" where
  "bytes_of_word w =
     [ucast (drop_bit 24 w), ucast (drop_bit 16 w), ucast (drop_bit 8 w), ucast w]"

text \<open>The message schedule: \<open>n\<close> more words after the ones already in \<open>w\<close>.\<close>

primrec schedule :: "nat \<Rightarrow> word32 list \<Rightarrow> word32 list" where
  "schedule 0 w = w"
| "schedule (Suc n) w =
     schedule n (w @ [sigma1 (w ! (length w - 2)) + w ! (length w - 7)
                    + sigma0 (w ! (length w - 15)) + w ! (length w - 16)])"

fun round256 :: "word32 list \<Rightarrow> word32 \<times> word32 \<Rightarrow> word32 list" where
  "round256 [a, b, c, d, e, f, g, h] (k, w) =
     (let t1 = h + Sigma1 e + Ch e f g + k + w;
          t2 = Sigma0 a + Maj a b c
      in [t1 + t2, a, b, c, d + t1, e, f, g])"
| "round256 s _ = s"

definition compress :: "word32 list \<Rightarrow> pybytes \<Rightarrow> word32 list" where
  "compress hs blk =
     map2 (+) hs (foldl round256 hs (zip K256 (schedule 48 (words_of blk))))"

text \<open>
  Padding: the octet \<open>0x80\<close>, zero octets up to 56 modulo 64, and the length of the message
  in bits as a 64-bit big-endian number.
\<close>

definition bit_length :: "pybytes \<Rightarrow> 64 word" where
  "bit_length m = of_nat (8 * length m)"

definition pad :: "pybytes \<Rightarrow> pybytes" where
  "pad m = m @ [0x80] @ replicate ((119 - length m mod 64) mod 64) 0
             @ map (\<lambda>i. ucast (drop_bit (8 * i) (bit_length m))) [7, 6, 5, 4, 3, 2, 1, 0]"

primrec chunks :: "nat \<Rightarrow> pybytes \<Rightarrow> pybytes list" where
  "chunks 0 bs = []"
| "chunks (Suc n) bs = take 64 bs # chunks n (drop 64 bs)"

definition sha256 :: "pybytes \<Rightarrow> pybytes" where
  "sha256 m =
     (let p = pad m in
        concat (map bytes_of_word (foldl compress H256 (chunks (length p div 64) p))))"

subsection \<open>\<^verbatim>\<open>hmac.new(key, msg, digestmod=hashlib.sha256).digest()\<close>\<close>

text \<open>
  RFC 2104 with the block size 64 of SHA-256: a key longer than a block is hashed first, the
  key is padded with zero octets to a block (\<^verbatim>\<open>key.ljust(blocksize, b'\0')\<close>), and the inner
  and outer hashes run over the key xor-ed with \<open>0x36\<close> and \<open>0x5C\<close>.
\<close>

definition hmac_sha256 :: "pybytes \<Rightarrow> pybytes \<Rightarrow> pybytes" where
  "hmac_sha256 key msg =
     (let k0 = (if length key > 64 then sha256 key else key);
          k = k0 @ replicate (64 - length k0) 0;
          inner = sha256 (map (\<lambda>b. b XOR 0x36) k @ msg)
      in sha256 (map (\<lambda>b. b XOR 0x5C) k @ inner))"

subsection \<open>\<^verbatim>\<open>base64.b64encode\<close>\<close>

text \<open>
  RFC 4648, standard alphabet, with padding.  Three octets give four sextets; a last group
  of one or two octets is filled with zero bits and padded with \<open>=\<close> (code 61).
\<close>

definition b64_alphabet :: "pybytes" where
  "b64_alphabet =
     map of_char ''ABCDEFGHIJKLMNOPQRSTUVWXYZabcdefghijklmnopqrstuvwxyz0123456789+/''"

definition b64_char :: "nat \<Rightarrow> byte" where
  "b64_char i = b64_alphabet ! i"

fun b64encode :: "pybytes \<Rightarrow> pybytes" where
  "b64encode [] = []"
| "b64encode [a] =
     [b64_char (unat a div 4), b64_char (unat a mod 4 * 16), 61, 61]"
| "b64encode [a, b] =
     [b64_char (unat a div 4), b64_char (unat a mod 4 * 16 + unat b div 16),
      b64_char (unat b mod 16 * 4), 61]"
| "b64encode (a # b # c # r) =
     [b64_char (unat a div 4), b64_char (unat a mod 4 * 16 + unat b div 16),
      b64_char (unat b mod 16 * 4 + unat c div 64), b64_char (unat c mod 64)] @ b64encode r"

section \<open>The source\<close>

text \<open>
  What \<^verbatim>\<open>render(request, 'index.html', context=context)\<close> is given.  Template rendering is
  Django's and is not modelled: the response is the triple handed to it.  The fields of
  \<open>template_context\<close> are the four keys of the dictionary \<^verbatim>\<open>context\<close>.
\<close>

record template_context =
  ctx_transaction_uuid :: uuid
  ctx_total_amount :: int
  ctx_product_code :: pystr
  ctx_signature :: pystr

record 'r response =
  resp_request :: 'r
  resp_template :: pystr
  resp_context :: template_context

definition render :: "'r \<Rightarrow> pystr \<Rightarrow> template_context \<Rightarrow> 'r response" where
  "render request template ctx =
     \<lparr>resp_request = request, resp_template = template, resp_context = ctx\<rparr>"

text \<open>
  \<^verbatim>\<open>paymentHandler\<close> of \<^verbatim>\<open>views.py\<close>, statement by statement.  The second argument is what
  \<^verbatim>\<open>os.urandom(16)\<close> returns inside \<^verbatim>\<open>uuid4()\<close>.  An exception raised by a statement ends the
  handler with that exception.
\<close>

definition paymentHandler :: "'r \<Rightarrow> uuid \<Rightarrow> py_error + 'r response" where
  "paymentHandler request urandom =
     (let uid = uuid4 urandom;
          total_amount = 110;
          transaction_uuid = uid;
          product_code = ascii ''EPAYTEST'';
          message = fstring [Lit ''total_amount='', Field (PyInt total_amount),
                             Lit '',transaction_uuid='', Field (PyUUID uid),
                             Lit '',product_code='', Field (PyStr product_code)]
      in case encode message of
           Inl e \<Rightarrow> Inl e
         | Inr message \<Rightarrow>
             let secret = utf8_bytes (ascii ''8gBm/:&EnhH.1/q'');
                 digest = hmac_sha256 secret message
             in case decode (b64encode digest) of
                  Inl e \<Rightarrow> Inl e
                | Inr signature \<Rightarrow>
                    Inr (render request (ascii ''index.html'')
                           \<lparr>ctx_transaction_uuid = transaction_uuid,
                            ctx_total_amount = total_amount,
                            ctx_product_code = product_code,
                            ctx_signature = signature\<rparr>))"

text \<open>
  The module \<^verbatim>\<open>secret.py\<close>, statement by statement: the global variables it leaves behind.
  Its three \<^verbatim>\<open>print\<close> calls write to standard output and bind nothing; they are left out.
\<close>

record script_globals =
  g_uid :: uuid
  g_total_amount :: int
  g_transaction_uuid :: uuid
  g_product_code :: pystr
  g_message :: pybytes
  g_secret :: pybytes
  g_digest :: pybytes
  g_signature :: pystr

definition secret_script :: "uuid \<Rightarrow> py_error + script_globals" where
  "secret_script urandom =
     (let uid = uuid4 urandom;
          total_amount = 110;
          transaction_uuid = uid;
          product_code = ascii ''EPAYTEST'';
          message = fstring [Lit ''total_amount='', Field (PyInt total_amount),
                             Lit '',transaction_uuid='', Field (PyUUID uid),
                             Lit '',product_code='', Field (PyStr product_code)]
      in case encode message of
           Inl e \<Rightarrow> Inl e
         | Inr message \<Rightarrow>
             let secret = utf8_bytes (ascii ''8gBm/:&EnhH.1/q'');
                 digest = hmac_sha256 secret message
             in case decode (b64encode digest) of
                  Inl e \<Rightarrow> Inl e
                | Inr signature \<Rightarrow>
                    Inr \<lparr>g_uid = uid, g_total_amount = total_amount,
                         g_transaction_uuid = transaction_uuid, g_product_code = product_code,
                         g_message = message, g_secret = secret, g_digest = digest,
                         g_signature = signature\<rparr>)"

text \<open>
  Lines 14 to 20 of \<^verbatim>\<open>views.py\<close> (11 to 17 of \<^verbatim>\<open>secret.py\<close>) as a function of the four
  variables they read: \<^verbatim>\<open>total_amount\<close>, \<^verbatim>\<open>uid\<close>, \<^verbatim>\<open>product_code\<close> and \<^verbatim>\<open>secret\<close>.
\<close>

definition canonical_message :: "int \<Rightarrow> uuid \<Rightarrow> pystr \<Rightarrow> pystr" where
  "canonical_message total_amount uid product_code =
     fstring [Lit ''total_amount='', Field (PyInt total_amount),
              Lit '',transaction_uuid='', Field (PyUUID uid),
              Lit '',product_code='', Field (PyStr product_code)]"

definition generate :: "int \<Rightarrow> uuid \<Rightarrow> pystr \<Rightarrow> pybytes \<Rightarrow> py_error + pystr" where
  "generate total_amount uid product_code secret =
     (let message = canonical_message total_amount uid product_code
      in case encode message of
           Inl e \<Rightarrow> Inl e
         | Inr message \<Rightarrow>
             let digest = hmac_sha256 secret message
             in decode (b64encode digest))"

section \<open>Observations used in the statements\<close>

text \<open>The characters of the standard base64 alphabet, as code points: A-Z, a-z, 0-9, + and /.\<close>

definition is_b64_char :: "nat \<Rightarrow> bool" where
  "is_b64_char c = ((65 \<le> c \<and> c \<le> 90) \<or> (97 \<le> c \<and> c \<le> 122) \<or> (48 \<le> c \<and> c \<le> 57)
                    \<or> c = 43 \<or> c = 47)"

text \<open>
  What a run of the handler or of the script hands on: its signature and its transaction
  UUID, or the exception it ended with.
\<close>

definition handler_signature :: "py_error + 'r response \<Rightarrow> py_error + pystr" where
  "handler_signature out = map_sum id (\<lambda>resp. ctx_signature (resp_context resp)) out"


definition script_signature :: "py_error + script_globals \<Rightarrow> py_error + pystr" where
  "script_signature out = map_sum id g_signature out"


section \<open>Properties of the library functions\<close>

lemma length_round256: "length (round256 s kw) = length s"
  by (cases "(s, kw)" rule: round256.cases) (simp_all add: Let_def)

lemma length_foldl_round256: "length (foldl round256 s xs) = length s"
  by (induction xs arbitrary: s) (simp_all add: length_round256)

lemma length_compress: "length (compress hs blk) = length hs"
  by (simp add: compress_def length_foldl_round256)

lemma length_foldl_compress: "length (foldl compress hs bs) = length hs"
  by (induction bs arbitrary: hs) (simp_all add: length_compress)

lemma length_concat_bytes_of_word: "length (concat (map bytes_of_word ws)) = 4 * length ws"
  by (induction ws) (simp_all add: bytes_of_word_def)

lemma length_sha256: "length (sha256 m) = 32"
  by (simp add: sha256_def Let_def length_concat_bytes_of_word length_foldl_compress H256_def)

lemma length_hmac_sha256: "length (hmac_sha256 key msg) = 32"
  by (simp add: hmac_sha256_def Let_def length_sha256)

lemma b64_alphabet_chars: "list_all (\<lambda>c. is_b64_char (unat c)) b64_alphabet"
  by (simp add: b64_alphabet_def is_b64_char_def)

lemma length_b64_alphabet: "length b64_alphabet = 64"
  by (simp add: b64_alphabet_def)

lemma b64_char_ok: "i < 64 \<Longrightarrow> is_b64_char (unat (b64_char i))"
  using b64_alphabet_chars by (simp add: b64_char_def list_all_length length_b64_alphabet)

lemma decode_nat_ascii: "list_all (\<lambda>b. b < 128) bs \<Longrightarrow> decode_nat bs = Inr bs"
  by (induction bs) (simp_all add: cons_cp_def)

lemma unat_byte_less: "unat (a::byte) < 256"
  using unsigned_less [of a, where ?'a = nat] by simp

lemma sextet1: "unat (a::byte) div 4 < 64"
  using unat_byte_less [of a] by simp

lemma sextet2: "unat (a::byte) mod 4 * 16 + unat (b::byte) div 16 < 64"
  using unat_byte_less [of b] by arith

lemma sextet2': "unat (a::byte) mod 4 * 16 < 64"
  by arith

lemma sextet3: "unat (b::byte) mod 16 * 4 + unat (c::byte) div 64 < 64"
  using unat_byte_less [of c] by arith

lemma sextet3': "unat (b::byte) mod 16 * 4 < 64"
  by arith

lemma sextet4: "unat (c::byte) mod 64 < 64"
  by simp

lemmas sextets = sextet1 sextet2 sextet2' sextet3 sextet3' sextet4

lemma b64encode_chars:
  "list_all (\<lambda>c. is_b64_char (unat c) \<or> c = 61) (b64encode bs)"
  by (induction bs rule: b64encode.induct) (simp_all add: b64_char_ok sextets)

lemma is_b64_char_ascii: "is_b64_char c \<Longrightarrow> c < 128"
  by (auto simp: is_b64_char_def)

lemma b64encode_ascii: "list_all (\<lambda>b. b < 128) (map unat (b64encode bs))"
proof -
  have "\<And>c::byte. is_b64_char (unat c) \<or> c = 61 \<Longrightarrow> unat c < 128"
    using is_b64_char_ascii by auto
  with b64encode_chars [of bs] show ?thesis
    by (simp add: list_all_iff)
qed

lemma decode_b64encode: "decode (b64encode bs) = Inr (map unat (b64encode bs))"
  by (simp add: decode_def decode_nat_ascii b64encode_ascii)

lemma length_b64encode: "length (b64encode bs) = 4 * ((length bs + 2) div 3)"
proof (induction bs rule: b64encode.induct)
  case (4 a b c r)
  have "(length r + 5) div 3 = Suc ((length r + 2) div 3)" by arith
  with 4 show ?case by (simp add: add.commute)
qed simp_all

lemma b64encode_one_pad:
  "length bs mod 3 = 2 \<Longrightarrow>
   \<exists>body. b64encode bs = body @ [61] \<and> list_all (\<lambda>c. is_b64_char (unat c)) body"
proof (induction bs rule: b64encode.induct)
  case (3 a b)
  have "b64encode [a, b] =
          [b64_char (unat a div 4), b64_char (unat a mod 4 * 16 + unat b div 16),
           b64_char (unat b mod 16 * 4)] @ [61]"
    by simp
  moreover have "list_all (\<lambda>c. is_b64_char (unat c))
          [b64_char (unat a div 4), b64_char (unat a mod 4 * 16 + unat b div 16),
           b64_char (unat b mod 16 * 4)]"
    by (simp add: b64_char_ok sextets)
  ultimately show ?case by blast
next
  case (4 a b c r)
  then have "length r mod 3 = 2" by simp
  with 4 obtain body where body: "b64encode r = body @ [61]"
      "list_all (\<lambda>c. is_b64_char (unat c)) body"
    by blast
  let ?g = "[b64_char (unat a div 4), b64_char (unat a mod 4 * 16 + unat b div 16),
             b64_char (unat b mod 16 * 4 + unat c div 64), b64_char (unat c mod 64)]"
  have "b64encode (a # b # c # r) = (?g @ body) @ [61]"
    using body by simp
  moreover have "list_all (\<lambda>c. is_b64_char (unat c)) (?g @ body)"
    using body by (simp add: b64_char_ok sextets)
  ultimately show ?case by blast
qed simp_all

lemma scalar_ascii: "c < 128 \<Longrightarrow> scalar_value c"
  by (simp add: scalar_value_def)

lemma digits_scalar: "list_all scalar_value (digits n)"
proof (induction n rule: digits.induct)
  case (1 n)
  show ?case
  proof (cases "n < 10")
    case True
    then show ?thesis by (simp add: digits.simps [of n] scalar_ascii)
  next
    case False
    with 1 have "list_all scalar_value (digits (n div 10))" by simp
    moreover have "scalar_value (48 + n mod 10)" by (rule scalar_ascii) arith
    ultimately show ?thesis using False by (simp add: digits.simps [of n])
  qed
qed

lemma str_int_scalar: "list_all scalar_value (str_int i)"
  by (simp add: str_int_def digits_scalar scalar_ascii)


lemma hexdigit_scalar: "n < 16 \<Longrightarrow> scalar_value (hexdigit n)"
  by (simp add: hexdigit_def scalar_ascii)

lemma nibble_less: "unat ((w::uuid) AND 0xF) < 16"
proof -
  have "unat (w AND 0xF) \<le> unat (0xF :: uuid)"
    by (rule word_and_le1 [THEN word_le_nat_alt [THEN iffD1]])
  then show ?thesis by simp
qed

lemma hex_digits_scalar: "list_all scalar_value (hex_digits n w)"
  by (induction n arbitrary: w) (simp_all add: hexdigit_scalar nibble_less)

lemma uuid_str_scalar: "list_all scalar_value (uuid_str w)"
proof -
  have h: "list_all scalar_value (uuid_hex w)"
    by (simp add: uuid_hex_def hex_digits_scalar)
  have t: "\<And>n xs. list_all scalar_value xs \<Longrightarrow> list_all scalar_value (take n xs)"
    by (meson in_set_takeD list_all_iff)
  have d: "\<And>n xs. list_all scalar_value xs \<Longrightarrow> list_all scalar_value (drop n xs)"
    by (meson in_set_dropD list_all_iff)
  have "scalar_value 45" by (simp add: scalar_ascii)
  with h t d show ?thesis by (simp add: uuid_str_def Let_def)
qed

lemma ascii_scalar: "list_all scalar_value (ascii s)"
proof -
  have "(of_char c :: nat) < 256" for c :: char
  proof -
    have "(of_char c :: nat) = of_char c mod 256" by (simp add: of_char_mod_256)
    also have "\<dots> < 256" by simp
    finally show ?thesis .
  qed
  then have "scalar_value (of_char c)" for c :: char
    using less_trans [of "of_char c :: nat" 256 55296] by (simp add: scalar_value_def)
  then show ?thesis
    by (simp add: ascii_def list_all_iff)
qed

lemma canonical_message_eq:
  "canonical_message a u p =
     ascii ''total_amount='' @ str_int a @ ascii '',transaction_uuid='' @ uuid_str u
       @ ascii '',product_code='' @ p"
  by (simp add: canonical_message_def fstring_def)

lemma canonical_message_scalar:
  "list_all scalar_value (canonical_message a u p) = list_all scalar_value p"
  by (simp add: canonical_message_eq ascii_scalar str_int_scalar uuid_str_scalar)

lemma generate_eq:
  "generate a u p s =
     (if list_all scalar_value p
      then Inr (map unat (b64encode (hmac_sha256 s (utf8_bytes (canonical_message a u p)))))
      else Inl UnicodeEncodeError)"
  by (simp add: generate_def encode_def Let_def canonical_message_scalar decode_b64encode)

section \<open>The handler, the script and the signature lines\<close>

lemma utf8_bytes_ascii_key:
  "utf8_bytes (ascii ''8gBm/:&EnhH.1/q'') =
     [56, 103, 66, 109, 47, 58, 38, 69, 110, 104, 72, 46, 49, 47, 113]"
  by (simp add: utf8_bytes_def ascii_def utf8_cp_def)

lemma paymentHandler_eq:
  "paymentHandler req r =
     Inr (render req (ascii ''index.html'')
            \<lparr>ctx_transaction_uuid = uuid4 r, ctx_total_amount = 110,
             ctx_product_code = ascii ''EPAYTEST'',
             ctx_signature = map unat (b64encode (hmac_sha256 (utf8_bytes (ascii ''8gBm/:&EnhH.1/q''))
                (utf8_bytes (canonical_message 110 (uuid4 r) (ascii ''EPAYTEST'')))))\<rparr>)"
  by (simp add: paymentHandler_def Let_def canonical_message_def [symmetric] encode_def
      canonical_message_scalar ascii_scalar decode_b64encode)

lemma secret_script_eq:
  "secret_script r =
     Inr \<lparr>g_uid = uuid4 r, g_total_amount = 110, g_transaction_uuid = uuid4 r,
          g_product_code = ascii ''EPAYTEST'',
          g_message = utf8_bytes (canonical_message 110 (uuid4 r) (ascii ''EPAYTEST'')),
          g_secret = utf8_bytes (ascii ''8gBm/:&EnhH.1/q''),
          g_digest = hmac_sha256 (utf8_bytes (ascii ''8gBm/:&EnhH.1/q''))
                (utf8_bytes (canonical_message 110 (uuid4 r) (ascii ''EPAYTEST''))),
          g_signature = map unat (b64encode (hmac_sha256 (utf8_bytes (ascii ''8gBm/:&EnhH.1/q''))
                (utf8_bytes (canonical_message 110 (uuid4 r) (ascii ''EPAYTEST'')))))\<rparr>"
  by (simp add: secret_script_def Let_def canonical_message_def [symmetric] encode_def
      canonical_message_scalar ascii_scalar decode_b64encode)

section \<open>Injectivity of the formatting and encoding steps\<close>










































section \<open>The claims\<close>

text \<open>
  Claim C1.  For every total amount, every UUID and every secret, and every product code that
  has UTF-8 octets (all its code points are scalar values), the signature lines return the
  standard base64 encoding, with padding, of the HMAC-SHA256 digest, keyed by the secret, of
  the UTF-8 octets of the canonical message.  The returned string is the base64 octets read
  as characters.
\<close>

theorem generate_base64_hmac_sha256:
  assumes "list_all scalar_value product_code"
  shows "generate total_amount uid product_code secret =
           Inr (map unat (b64encode (hmac_sha256 secret
                  (utf8_bytes (canonical_message total_amount uid product_code)))))"
  using assms by (simp add: generate_eq)

theorem generate_base64_hmac_sha256_witness:
  "list_all scalar_value (ascii ''EPAYTEST'') \<and>
   generate 110 0x00000000000040008000000000000000 (ascii ''EPAYTEST'')
       (utf8_bytes (ascii ''8gBm/:&EnhH.1/q'')) =
     Inr (map unat (b64encode (hmac_sha256 (utf8_bytes (ascii ''8gBm/:&EnhH.1/q''))
            (utf8_bytes (canonical_message 110 0x00000000000040008000000000000000
               (ascii ''EPAYTEST''))))))"
proof -
  have h: "list_all scalar_value (ascii ''EPAYTEST'')"
    by (simp add: ascii_def scalar_value_def)
  from generate_base64_hmac_sha256 [OF h] h show ?thesis by blast
qed

text \<open>The known vector of the specification: its three fields as the source formats them.\<close>

lemma str_int_110: "str_int 110 = ascii ''110''"
  by (simp add: str_int_def digits.simps ascii_def)

lemma hex_digits_numeral:
  "hex_digits (numeral k) w =
     hex_digits (pred_numeral k) (drop_bit 4 w) @ [hexdigit (unat (w AND 0xF))]"
  by (simp add: numeral_eq_Suc)

lemma uuid_str_known:
  "uuid_str 0x00000000000040008000000000000000 = ascii ''00000000-0000-4000-8000-000000000000''"
  by (simp add: uuid_str_def uuid_hex_def hex_digits_numeral hexdigit_def ascii_def Let_def)

text \<open>
  Claim C2.  The canonical message is the text \<^verbatim>\<open>total_amount=\<close>, the decimal total amount,
  \<^verbatim>\<open>,transaction_uuid=\<close>, the UUID in its string form, \<^verbatim>\<open>,product_code=\<close> and the product
  code, with nothing in between; for 110, the UUID \<^verbatim>\<open>00000000-0000-4000-8000-000000000000\<close> and
  \<^verbatim>\<open>EPAYTEST\<close> it is the message of the known-vector scenario.
\<close>

theorem canonical_message_format:
  "canonical_message total_amount uid product_code =
     ascii ''total_amount='' @ str_int total_amount @ ascii '',transaction_uuid=''
       @ uuid_str uid @ ascii '',product_code='' @ product_code
   \<and> uuid_str 0x00000000000040008000000000000000 = ascii ''00000000-0000-4000-8000-000000000000''
   \<and> canonical_message 110 0x00000000000040008000000000000000 (ascii ''EPAYTEST'') =
       ascii ''total_amount=110,transaction_uuid=00000000-0000-4000-8000-000000000000,product_code=EPAYTEST''"
proof (intro conjI)
  show "canonical_message total_amount uid product_code =
     ascii ''total_amount='' @ str_int total_amount @ ascii '',transaction_uuid=''
       @ uuid_str uid @ ascii '',product_code='' @ product_code"
    by (simp add: canonical_message_def fstring_def)
  show "uuid_str 0x00000000000040008000000000000000 = ascii ''00000000-0000-4000-8000-000000000000''"
    by (rule uuid_str_known)
  show "canonical_message 110 0x00000000000040008000000000000000 (ascii ''EPAYTEST'') =
       ascii ''total_amount=110,transaction_uuid=00000000-0000-4000-8000-000000000000,product_code=EPAYTEST''"
    by (simp add: canonical_message_def fstring_def str_int_110 uuid_str_known) (simp add: ascii_def)
qed

text \<open>
  Claim C4.  Whenever the product code can be encoded, a signature is returned; it is 44
  characters long, every character is a base64 character or \<open>=\<close> (code 61), the last character
  is \<open>=\<close> and the 43 before it are base64 characters, none of them \<open>=\<close>: exactly one padding
  character.
\<close>

theorem signature_shape:
  assumes "list_all scalar_value product_code"
  shows "\<exists>sig. generate total_amount uid product_code secret = Inr sig
           \<and> length sig = 44
           \<and> list_all (\<lambda>c. is_b64_char c \<or> c = 61) sig
           \<and> last sig = 61
           \<and> list_all is_b64_char (butlast sig)
           \<and> 61 \<notin> set (butlast sig)"
proof -
  let ?d = "hmac_sha256 secret (utf8_bytes (canonical_message total_amount uid product_code))"
  have "length ?d mod 3 = 2" by (simp add: length_hmac_sha256)
  then obtain body where body: "b64encode ?d = body @ [61]"
      "list_all (\<lambda>c. is_b64_char (unat c)) body"
    using b64encode_one_pad by blast
  let ?sig = "map unat (b64encode ?d)"
  have g: "generate total_amount uid product_code secret = Inr ?sig"
    using assms by (simp add: generate_eq)
  have len: "length ?sig = 44"
    by (simp add: length_b64encode length_hmac_sha256)
  have sig: "?sig = map unat body @ [61]"
    using body by simp
  have b: "list_all is_b64_char (map unat body)"
    using body by (simp add: list_all_iff)
  have n: "\<not> is_b64_char 61" by (simp add: is_b64_char_def)
  have "list_all (\<lambda>c. is_b64_char c \<or> c = 61) ?sig"
    using b by (simp add: sig list_all_iff)
  moreover have "last ?sig = 61" by (simp add: sig)
  moreover have "list_all is_b64_char (butlast ?sig)" using b by (simp add: sig)
  moreover have "61 \<notin> set (butlast ?sig)" using b n by (auto simp: sig list_all_iff)
  ultimately show ?thesis using g len by blast
qed

theorem signature_shape_witness:
  "list_all scalar_value (ascii ''EPAYTEST'') \<and>
   (\<exists>sig. generate 110 0x00000000000040008000000000000000 (ascii ''EPAYTEST'')
             (utf8_bytes (ascii ''8gBm/:&EnhH.1/q'')) = Inr sig
           \<and> length sig = 44
           \<and> list_all (\<lambda>c. is_b64_char c \<or> c = 61) sig
           \<and> last sig = 61
           \<and> list_all is_b64_char (butlast sig)
           \<and> 61 \<notin> set (butlast sig))"
proof -
  have h: "list_all scalar_value (ascii ''EPAYTEST'')"
    by (simp add: ascii_def scalar_value_def)
  from signature_shape [OF h] h show ?thesis by blast
qed

lemma handler_signature_eq:
  "handler_signature (paymentHandler req r) =
     generate 110 (uuid4 r) (ascii ''EPAYTEST'') (utf8_bytes (ascii ''8gBm/:&EnhH.1/q''))"
  by (simp add: handler_signature_def paymentHandler_eq generate_eq ascii_scalar render_def)

lemma script_signature_eq:
  "script_signature (secret_script r) =
     generate 110 (uuid4 r) (ascii ''EPAYTEST'') (utf8_bytes (ascii ''8gBm/:&EnhH.1/q''))"
  by (simp add: script_signature_def secret_script_eq generate_eq ascii_scalar)


lemma uuid4_version_bits: "uuid4 0 = uuid4 0x10000000000000000000"
  by (simp add: uuid4_def)






text \<open>
  Claim C9.  Every run of the handler succeeds and passes to the template the total amount
  110, the product code \<^verbatim>\<open>EPAYTEST\<close> and the signature that the signature lines compute for
  110, the UUID of the run, \<^verbatim>\<open>EPAYTEST\<close> and the key \<^verbatim>\<open>8gBm/:&EnhH.1/q\<close>; the response depends
  on the request and on the UUID only.
\<close>

theorem paymentHandler_constants:
  "\<exists>sig. paymentHandler request urandom =
           Inr (render request (ascii ''index.html'')
                  \<lparr>ctx_transaction_uuid = uuid4 urandom, ctx_total_amount = 110,
                   ctx_product_code = ascii ''EPAYTEST'', ctx_signature = sig\<rparr>)
         \<and> generate 110 (uuid4 urandom) (ascii ''EPAYTEST'')
               [56, 103, 66, 109, 47, 58, 38, 69, 110, 104, 72, 46, 49, 47, 113] = Inr sig
         \<and> sig = map unat (b64encode (hmac_sha256
               [56, 103, 66, 109, 47, 58, 38, 69, 110, 104, 72, 46, 49, 47, 113]
               (utf8_bytes (ascii ''total_amount=110,transaction_uuid='' @ uuid_str (uuid4 urandom)
                  @ ascii '',product_code=EPAYTEST''))))"
proof -
  have m: "canonical_message 110 (uuid4 urandom) (ascii ''EPAYTEST'') =
        ascii ''total_amount=110,transaction_uuid='' @ uuid_str (uuid4 urandom)
                  @ ascii '',product_code=EPAYTEST''"
    by (simp add: canonical_message_eq str_int_110) (simp add: ascii_def)
  show ?thesis
    by (simp add: paymentHandler_eq generate_eq ascii_scalar utf8_bytes_ascii_key m)
qed

text \<open>
  Claim C10.  The script and the handler compute the same signature: run on the same
  transaction UUID, the signature the script binds is the one the handler passes to the
  template, and both runs succeed.
\<close>

theorem script_refines_handler:
  assumes "uuid4 r1 = uuid4 r2"
  shows "script_signature (secret_script r1) = handler_signature (paymentHandler request r2)
         \<and> (\<exists>sig. script_signature (secret_script r1) = Inr sig)"
  using assms by (simp add: handler_signature_eq script_signature_eq generate_eq ascii_scalar)

theorem script_refines_handler_witness:
  "uuid4 0x10000000000000000000 = uuid4 0
   \<and> script_signature (secret_script 0x10000000000000000000) =
       handler_signature (paymentHandler () 0)"
proof -
  have h: "uuid4 0x10000000000000000000 = uuid4 0"
    by (simp add: uuid4_def)
  from script_refines_handler [OF h, of "()"] h show ?thesis by blast
qed







end
